theory Spec2Isabelle
  imports Main "HOL-Library.Word" "HOL-Library.AList"
begin

section \<open>Data model of graphapi-dmarc-mail.py\<close>

text \<open>
  The script talks to three things outside itself: the Python standard library
  (\<open>base64\<close>, \<open>gzip\<close>, \<open>zipfile\<close>, \<open>datetime.strptime\<close>), the HTTP servers reached
  through \<open>requests\<close>, and the wall clock. The library functions and the servers are
  parameters of the model (record \<open>env\<close>); everything the script itself computes is
  defined below, function by function, with Python exceptions as \<open>Inl\<close> values.

  Strings are \<open>char list\<close>; splitting at the ASCII full stop is the same on code points
  and on UTF-8 bytes. Time is an integer number of seconds. Every request is answered:
  the connection errors that \<open>requests\<close> itself can raise are outside the model, and the
  fields of a JSON answer have the types the script expects of them. A \<open>print\<close> outside
  a \<open>try\<close> is taken to succeed.
\<close>

type_synonym bytes = "8 word list"

datatype error = TypeError | KeyError | ValueError | JSONDecodeError | BinasciiError

text \<open>One element of the \<open>value\<close> array of a Graph API answer (a JSON object). A key
  that the object of that kind does not carry raises KeyError when it is read.\<close>

datatype resource =
    MailFolder string string
  | MailMessage string string string
  | FileAttachment "string option" string string

text \<open>The parsed text of an HTTP answer: \<open>json.loads\<close> fails on \<open>NotJson\<close>.\<close>

datatype body = NotJson | TokenJson string int | ValueJson "resource list"

record response =
  status_code :: int
  text_of :: body

datatype request =
    Post string "(string \<times> string) list"
  | Get string "(string \<times> string) list"
  | Delete string "(string \<times> string) list"

text \<open>What \<open>ZipFile(...)\<close> gives the script: the listed entries in the archive's order
  (\<open>ZipInfo\<close> objects), each with its name and with what reading that entry yields
  (its decompressed bytes, or \<open>None\<close> when reading it raises).\<close>

record zip_info =
  filename :: string
  content :: "bytes option"

record zip_archive =
  filelist :: "zip_info list"

text \<open>The collaborators. \<open>None\<close> means that the library call raises. The servers answer
  a request knowing the requests sent before it. \<open>stdout_accepts\<close> tells whether the
  standard output can encode a line; it is asked where the script prints inside a \<open>try\<close>,
  since there a failing \<open>print\<close> changes what is returned.\<close>

record env =
  b64decode :: "string \<Rightarrow> bytes option"
  decompress :: "bytes \<Rightarrow> bytes option"
  ZipFile :: "bytes \<Rightarrow> zip_archive option"
  strptime :: "string \<Rightarrow> string option"
  http :: "request list \<Rightarrow> request \<Rightarrow> response"
  stdout_accepts :: "string \<Rightarrow> bool"

datatype printed = Str string | Repr bytes

text \<open>The \<open>Graph\<close> object.\<close>

record Graph =
  token :: "string option"
  token_expires :: "int option"
  folder_id :: "string option"
  client_id :: string
  client_secret :: string
  tenant_id :: string
  mailbox :: string
  mailbox_folder :: string

text \<open>The object together with the world it acts on: the requests sent so far, the lines
  printed so far, and the reading of the clock.\<close>

record state =
  graph :: Graph
  sent :: "request list"
  stdout :: "printed list"
  clock :: int

definition print :: "printed \<Rightarrow> state \<Rightarrow> state" where
  "print x s = s\<lparr>stdout := stdout s @ [x]\<rparr>"

definition send :: "env \<Rightarrow> request \<Rightarrow> state \<Rightarrow> response \<times> state" where
  "send e r s = (http e (sent s) r, s\<lparr>sent := sent s @ [r]\<rparr>)"

definition GRAPH_URL :: "string \<Rightarrow> string" where
  "GRAPH_URL p = ''https://graph.microsoft.com'' @ p"

definition LOGIN_URL :: "string \<Rightarrow> string" where
  "LOGIN_URL t = ''https://login.microsoftonline.com/'' @ t @ ''/oauth2/v2.0/token''"

text \<open>Python's truth value of \<open>str | None\<close> and of \<open>bytes | None\<close>.\<close>

definition truthy :: "'a list option \<Rightarrow> bool" where
  "truthy v = (case v of None \<Rightarrow> False | Some xs \<Rightarrow> xs \<noteq> [])"

text \<open>\<open>str(v)\<close> inside an f-string, for \<open>str | None\<close>.\<close>

definition fmt :: "string option \<Rightarrow> string" where
  "fmt v = (case v of None \<Rightarrow> ''None'' | Some s \<Rightarrow> s)"

section \<open>The attachment decoder\<close>

text \<open>\<open>name.split('.')\<close>.\<close>

fun split_str :: "char \<Rightarrow> string \<Rightarrow> string list" where
  "split_str sep [] = [[]]"
| "split_str sep (c # cs) =
     (if c = sep then [] # split_str sep cs
      else (case split_str sep cs of
              [] \<Rightarrow> [[c]]
            | p # ps \<Rightarrow> (c # p) # ps))"

definition get_extention :: "string option \<Rightarrow> string option" where
  "get_extention name =
     (case name of
        None \<Rightarrow> None
      | Some n \<Rightarrow> (let parts = split_str CHR ''.'' n in Some (parts ! (length parts - 1))))"

fun get_name :: "resource \<Rightarrow> error + string option" where
  "get_name (FileAttachment n ct cb) = Inr n"
| "get_name _ = Inl KeyError"

fun get_contentType :: "resource \<Rightarrow> error + string" where
  "get_contentType (FileAttachment n ct cb) = Inr ct"
| "get_contentType _ = Inl KeyError"

fun get_contentBytes :: "resource \<Rightarrow> error + string" where
  "get_contentBytes (FileAttachment n ct cb) = Inr cb"
| "get_contentBytes _ = Inl KeyError"

text \<open>The two format signals of \<open>get_dmarc_xml\<close>.\<close>

definition gzip_signal :: "string \<Rightarrow> string option \<Rightarrow> bool" where
  "gzip_signal content_type ext \<longleftrightarrow>
     content_type = ''application/gzip'' \<or> ext = Some ''gz'' \<or> ext = Some ''gzip''"

definition zip_signal :: "string \<Rightarrow> string option \<Rightarrow> bool" where
  "zip_signal content_type ext \<longleftrightarrow> content_type = ''application/zip'' \<or> ext = Some ''zip''"

text \<open>\<open>zipfile.read(name)\<close> with a name: \<open>ZipFile\<close> looks the name up in its
  \<open>NameToInfo\<close> dictionary, which is filled entry by entry in the archive's order, so
  an entry replaces an earlier one of the same name. \<open>None\<close>: it raises (no entry of
  that name, or the entry cannot be read).\<close>

definition read :: "zip_archive \<Rightarrow> string \<Rightarrow> bytes option" where
  "read zipfile name =
     (case map_of (rev (map (\<lambda>info. (filename info, content info)) (filelist zipfile))) name of
        None \<Rightarrow> None
      | Some data \<Rightarrow> data)"

text \<open>The body of the \<open>try\<close> of the zip branch; \<open>None\<close> stands for both \<open>return None\<close>
  and the \<open>except Exception\<close> handler, which returns the same. The \<open>print\<close> of the
  entry's name is inside the \<open>try\<close>: when it raises, nothing is read.\<close>

definition unzip_first :: "env \<Rightarrow> bytes \<Rightarrow> state \<Rightarrow> bytes option \<times> state" where
  "unzip_first e raw_data s =
     (case ZipFile e raw_data of
        None \<Rightarrow> (None, s)
      | Some zipfile \<Rightarrow>
          (case filelist zipfile of
             [] \<Rightarrow> (None, s)
           | first_info # _ \<Rightarrow>
               (let file_name = filename first_info in
                if \<not> stdout_accepts e (''File name: '' @ file_name) then (None, s)
                else
                  (let s1 = print (Str (''File name: '' @ file_name)) s in
                   if get_extention (Some file_name) = Some ''xml''
                   then (read zipfile file_name, s1)
                   else (None, s1)))))"

definition get_dmarc_xml :: "env \<Rightarrow> resource \<Rightarrow> state \<Rightarrow> (error + bytes option) \<times> state" where
  "get_dmarc_xml e attachment s =
     (case get_name attachment of
        Inl err \<Rightarrow> (Inl err, s)
      | Inr name \<Rightarrow>
     (let ext = get_extention name in
      case get_contentType attachment of
        Inl err \<Rightarrow> (Inl err, s)
      | Inr content_type \<Rightarrow>
     (case get_contentBytes attachment of
        Inl err \<Rightarrow> (Inl err, s)
      | Inr content_bytes \<Rightarrow>
     (case b64decode e content_bytes of
        None \<Rightarrow> (Inl BinasciiError, s)
      | Some raw_data \<Rightarrow>
          if gzip_signal content_type ext then (Inr (decompress e raw_data), s)
          else if zip_signal content_type ext then
            (case unzip_first e raw_data s of (r, s1) \<Rightarrow> (Inr r, s1))
          else (Inr None, s)))))"

section \<open>The mail client\<close>

text \<open>\<open>_get_fresh_token\<close>: both \<open>datetime.now()\<close> of one \<open>get_token\<close> call read the same
  \<open>clock\<close>.\<close>

definition get_fresh_token :: "env \<Rightarrow> state \<Rightarrow> (error + unit) \<times> state" where
  "get_fresh_token e s =
     (let endpoint = LOGIN_URL (tenant_id (graph s));
          data = [(''grant_type'', ''client_credentials''),
                  (''client_id'', client_id (graph s)),
                  (''client_secret'', client_secret (graph s)),
                  (''scope'', ''https://graph.microsoft.com/.default'')]
      in case send e (Post endpoint data) s of
           (response, s1) \<Rightarrow>
             if status_code response = 200 then
               (case text_of response of
                  NotJson \<Rightarrow> (Inl JSONDecodeError, s1)
                | ValueJson v \<Rightarrow> (Inl KeyError, s1)
                | TokenJson access_token expires_in \<Rightarrow>
                    (Inr (), s1\<lparr>graph := (graph s1)\<lparr>token := Some access_token,
                                    token_expires := Some (clock s1 + expires_in)\<rparr>\<rparr>))
             else (Inr (), s1\<lparr>graph := (graph s1)\<lparr>token := None\<rparr>\<rparr>))"

definition get_token :: "env \<Rightarrow> state \<Rightarrow> (error + unit) \<times> state" where
  "get_token e s =
     (case token (graph s) of
        None \<Rightarrow> get_fresh_token e s
      | Some t \<Rightarrow>
          (case token_expires (graph s) of
             None \<Rightarrow> (Inl TypeError, s)
           | Some expires \<Rightarrow>
               if expires + 300 > clock s then get_fresh_token e s else (Inr (), s)))"

definition api_get_request ::
  "env \<Rightarrow> string \<Rightarrow> state \<Rightarrow> (error + resource list option) \<times> state" where
  "api_get_request e endpoint s =
     (if \<not> truthy (token (graph s)) then (Inr None, s)
      else
        (let headers = [(''Authorization'', ''Bearer '' @ fmt (token (graph s)))]
         in case send e (Get endpoint headers) s of
              (response, s1) \<Rightarrow>
                if status_code response \<noteq> 200 then (Inr None, s1)
                else
                  (case text_of response of
                     NotJson \<Rightarrow> (Inl JSONDecodeError, s1)
                   | TokenJson a x \<Rightarrow> (Inl KeyError, s1)
                   | ValueJson v \<Rightarrow> (Inr (Some v), s1))))"

definition api_delete_request :: "env \<Rightarrow> string \<Rightarrow> state \<Rightarrow> bool \<times> state" where
  "api_delete_request e endpoint s =
     (if \<not> truthy (token (graph s)) then (False, s)
      else
        (let headers = [(''Authorization'', ''Bearer '' @ fmt (token (graph s)))]
         in case send e (Delete endpoint headers) s of
              (response, s1) \<Rightarrow>
                if status_code response \<noteq> 204 then (False, s1) else (True, s1)))"

fun get_displayName :: "resource \<Rightarrow> error + string" where
  "get_displayName (MailFolder d i) = Inr d"
| "get_displayName _ = Inl KeyError"

fun get_id :: "resource \<Rightarrow> error + string" where
  "get_id (MailFolder d i) = Inr i"
| "get_id (MailMessage i r sub) = Inr i"
| "get_id _ = Inl KeyError"

fun get_receivedDateTime :: "resource \<Rightarrow> error + string" where
  "get_receivedDateTime (MailMessage i r sub) = Inr r"
| "get_receivedDateTime _ = Inl KeyError"

fun get_subject :: "resource \<Rightarrow> error + string" where
  "get_subject (MailMessage i r sub) = Inr sub"
| "get_subject _ = Inl KeyError"

text \<open>The \<open>for folder in ...\<close> loop of \<open>get_folder_id\<close>, with the local \<open>folder_id\<close> as
  the accumulator \<open>fid\<close>.\<close>

fun scan_folders :: "string \<Rightarrow> resource list \<Rightarrow> string option \<Rightarrow> error + string option" where
  "scan_folders target [] fid = Inr fid"
| "scan_folders target (folder # folders) fid =
     (case get_displayName folder of
        Inl err \<Rightarrow> Inl err
      | Inr d \<Rightarrow>
          if d = target then
            (case get_id folder of
               Inl err \<Rightarrow> Inl err
             | Inr i \<Rightarrow> scan_folders target folders (Some i))
          else scan_folders target folders fid)"

definition get_folder_id :: "env \<Rightarrow> state \<Rightarrow> (error + unit) \<times> state" where
  "get_folder_id e s =
     (case get_token e s of
        (Inl err, s1) \<Rightarrow> (Inl err, s1)
      | (Inr u, s1) \<Rightarrow>
          if \<not> truthy (token (graph s1)) \<or> truthy (folder_id (graph s1)) then (Inr (), s1)
          else
            (let endpoint = GRAPH_URL (''/v1.0/users/'' @ mailbox (graph s1) @ ''/mailFolders'')
             in case api_get_request e endpoint s1 of
                  (Inl err, s2) \<Rightarrow> (Inl err, s2)
                | (Inr None, s2) \<Rightarrow> (Inl TypeError, s2)
                | (Inr (Some folders), s2) \<Rightarrow>
                    (case scan_folders (mailbox_folder (graph s2)) folders None of
                       Inl err \<Rightarrow> (Inl err, s2)
                     | Inr fid \<Rightarrow> (Inr (), s2\<lparr>graph := (graph s2)\<lparr>folder_id := fid\<rparr>\<rparr>))))"

section \<open>The orchestrator\<close>

text \<open>\<open>processed_items\<close> is a Python dict: an association list in insertion order, where
  storing under a key already present replaces the value in place (\<open>AList.update\<close>).\<close>

type_synonym items = "(string \<times> bytes) list"

text \<open>The part of the loop body that runs once the first attachment is chosen.\<close>

definition process_attachment ::
  "env \<Rightarrow> string \<Rightarrow> resource \<Rightarrow> items \<Rightarrow> state \<Rightarrow> (error + items) \<times> state" where
  "process_attachment e item_id attachment processed_items s =
     (case get_name attachment of
        Inl err \<Rightarrow> (Inl err, s)
      | Inr name \<Rightarrow>
     (let s1 = print (Str (''Name: '' @ fmt name)) s in
      case get_contentType attachment of
        Inl err \<Rightarrow> (Inl err, s1)
      | Inr content_type \<Rightarrow>
     (let s2 = print (Str (''Content type: '' @ content_type)) s1 in
      case get_dmarc_xml e attachment s2 of
        (Inl err, s3) \<Rightarrow> (Inl err, s3)
      | (Inr None, s3) \<Rightarrow> (Inr processed_items, s3)
      | (Inr (Some xml_data), s3) \<Rightarrow>
          if xml_data = [] then (Inr processed_items, s3)
          else (Inr (AList.update item_id xml_data processed_items),
                print (Repr xml_data) (print (Str ''Attachment data base64:'') s3)))))"

text \<open>The body of \<open>for item in ...\<close>. An attachment is a JSON object with keys, so
  \<open>attachments[0]\<close> is true whenever the list is not empty.\<close>

definition process_item :: "env \<Rightarrow> resource \<Rightarrow> items \<Rightarrow> state \<Rightarrow> (error + items) \<times> state" where
  "process_item e item processed_items s =
     (case get_receivedDateTime item of
        Inl err \<Rightarrow> (Inl err, s)
      | Inr received \<Rightarrow>
     (case strptime e received of
        None \<Rightarrow> (Inl ValueError, s)
      | Some d \<Rightarrow>
     (let s1 = print (Str (''Received: '' @ d)) s in
      case get_subject item of
        Inl err \<Rightarrow> (Inl err, s1)
      | Inr subject \<Rightarrow>
     (let s2 = print (Str (''Subject: '' @ subject)) s1 in
      case get_id item of
        Inl err \<Rightarrow> (Inl err, s2)
      | Inr item_id \<Rightarrow>
     (let attachments_endpoint =
            GRAPH_URL (''/v1.0/users/'' @ mailbox (graph s2) @ ''/messages/'' @ item_id
                       @ ''/attachments'')
      in case api_get_request e attachments_endpoint s2 of
           (Inl err, s3) \<Rightarrow> (Inl err, s3)
         | (Inr None, s3) \<Rightarrow> (Inr processed_items, s3)
         | (Inr (Some []), s3) \<Rightarrow> (Inr processed_items, s3)
         | (Inr (Some (attachment # rest)), s3) \<Rightarrow>
             process_attachment e item_id attachment processed_items s3)))))"

fun process_loop :: "env \<Rightarrow> resource list \<Rightarrow> items \<Rightarrow> state \<Rightarrow> (error + items) \<times> state" where
  "process_loop e [] processed_items s = (Inr processed_items, s)"
| "process_loop e (item # rest) processed_items s =
     (case process_item e item processed_items s of
        (Inl err, s1) \<Rightarrow> (Inl err, s1)
      | (Inr processed_items1, s1) \<Rightarrow> process_loop e rest processed_items1 s1)"

definition process_dmarc_mail_items :: "env \<Rightarrow> state \<Rightarrow> (error + items) \<times> state" where
  "process_dmarc_mail_items e s =
     (case get_folder_id e s of
        (Inl err, s1) \<Rightarrow> (Inl err, s1)
      | (Inr u, s1) \<Rightarrow>
          (let endpoint =
                 GRAPH_URL (''/v1.0/users/'' @ mailbox (graph s1) @ ''/mailFolders/''
                            @ fmt (folder_id (graph s1)) @ ''/messages'')
           in case api_get_request e endpoint s1 of
                (Inl err, s2) \<Rightarrow> (Inl err, s2)
              | (Inr None, s2) \<Rightarrow> (Inl TypeError, s2)
              | (Inr (Some messages), s2) \<Rightarrow> process_loop e messages [] s2))"

text \<open>The message printed on a failed deletion is not an f-string: the braces are
  printed as they stand.\<close>

fun delete_mail_items :: "env \<Rightarrow> string list \<Rightarrow> state \<Rightarrow> (error + unit) \<times> state" where
  "delete_mail_items e [] s = (Inr (), s)"
| "delete_mail_items e (item_id # rest) s =
     (let endpoint = GRAPH_URL (''/v1.0/users/'' @ mailbox (graph s) @ ''/messages/'' @ item_id)
      in case api_delete_request e endpoint s of
           (True, s1) \<Rightarrow> delete_mail_items e rest s1
         | (False, s1) \<Rightarrow>
             delete_mail_items e rest (print (Str ''Unable to delete processed item! {id}'') s1))"

section \<open>The entry point\<close>

text \<open>\<open>Graph.__init__\<close>: a key missing from the settings raises KeyError.\<close>

definition Graph_init :: "(string \<rightharpoonup> string) \<Rightarrow> error + Graph" where
  "Graph_init settings =
     (case settings ''clientId'' of None \<Rightarrow> Inl KeyError | Some cid \<Rightarrow>
     (case settings ''clientSecret'' of None \<Rightarrow> Inl KeyError | Some secret \<Rightarrow>
     (case settings ''tenantId'' of None \<Rightarrow> Inl KeyError | Some tenant \<Rightarrow>
     (case settings ''mailbox'' of None \<Rightarrow> Inl KeyError | Some mbox \<Rightarrow>
     (case settings ''mailbox_folder'' of None \<Rightarrow> Inl KeyError | Some folder \<Rightarrow>
        Inr \<lparr>token = None, token_expires = None, folder_id = None, client_id = cid,
             client_secret = secret, tenant_id = tenant, mailbox = mbox,
             mailbox_folder = folder\<rparr>)))))"

text \<open>\<open>str(n)\<close> of a length.\<close>

fun str_nat :: "nat \<Rightarrow> string" where
  "str_nat n =
     (if n < 10 then [''0123456789'' ! n]
      else str_nat (n div 10) @ [''0123456789'' ! (n mod 10)])"

declare str_nat.simps [simp del]

definition print_item :: "string \<times> bytes \<Rightarrow> state \<Rightarrow> state" where
  "print_item kv s =
     print (Str (''ID: '' @ fst kv @ '': Bytes: '' @ str_nat (length (snd kv)))) s"

text \<open>\<open>main\<close>, run in the world of \<open>s0\<close>; the \<open>Graph\<close> object of \<open>s0\<close> is replaced by
  the one \<open>main\<close> constructs.\<close>

definition main ::
  "env \<Rightarrow> (string \<rightharpoonup> (string \<rightharpoonup> string)) \<Rightarrow> state \<Rightarrow> (error + unit) \<times> state" where
  "main e config s0 =
     (case config ''graph-dmarc-mail'' of
        None \<Rightarrow> (Inl KeyError, s0)
      | Some settings \<Rightarrow>
          (case Graph_init settings of
             Inl err \<Rightarrow> (Inl err, s0)
           | Inr g \<Rightarrow>
               (case process_dmarc_mail_items e (s0\<lparr>graph := g\<rparr>) of
                  (Inl err, s1) \<Rightarrow> (Inl err, s1)
                | (Inr processed, s1) \<Rightarrow>
                    delete_mail_items e (map fst processed) (fold print_item processed s1))))"

section \<open>A small world to run the script in\<close>

text \<open>Test doubles of the libraries and of the servers, used to run the definitions on
  concrete inputs. The mailbox \<open>m@x\<close> has the folders Archive, Inbox and a second Inbox;
  the last one holds three messages.\<close>

definition xml_bytes :: bytes where
  "xml_bytes = [60, 114, 47, 62]"

definition stub_archive_txt_first :: zip_archive where
  "stub_archive_txt_first =
     \<lparr>filelist = [\<lparr>filename = ''notes.txt'', content = Some [104, 105]\<rparr>,
                  \<lparr>filename = ''report.xml'', content = Some xml_bytes\<rparr>]\<rparr>"

definition stub_archive_xml_first :: zip_archive where
  "stub_archive_xml_first =
     \<lparr>filelist = [\<lparr>filename = ''report.xml'', content = Some xml_bytes\<rparr>,
                  \<lparr>filename = ''notes.txt'', content = Some [104, 105]\<rparr>]\<rparr>"

definition stub_archive_empty :: zip_archive where
  "stub_archive_empty = \<lparr>filelist = []\<rparr>"

text \<open>An archive with two entries of one name: \<open><a/>\<close> first, then \<open><b/>\<close>.\<close>

definition stub_archive_same_name :: zip_archive where
  "stub_archive_same_name =
     \<lparr>filelist = [\<lparr>filename = ''report.xml'', content = Some [60, 97, 47, 62]\<rparr>,
                  \<lparr>filename = ''report.xml'', content = Some [60, 98, 47, 62]\<rparr>]\<rparr>"

definition stub_messages :: "resource list" where
  "stub_messages =
     [MailMessage ''m1'' ''2024-01-01T00:00:00Z'' ''Report 1'',
      MailMessage ''m2'' ''2024-01-02T00:00:00Z'' ''Report 2'',
      MailMessage ''m3'' ''2024-01-03T00:00:00Z'' ''Report 3'']"

definition stub_get :: "int \<Rightarrow> string \<Rightarrow> response" where
  "stub_get messages_status url =
     (if url = ''https://graph.microsoft.com/v1.0/users/m@x/mailFolders'' then
        \<lparr>status_code = 200,
         text_of = ValueJson [MailFolder ''Archive'' ''f1'', MailFolder ''Inbox'' ''f2'',
                              MailFolder ''Inbox'' ''f3'']\<rparr>
      else if url = ''https://graph.microsoft.com/v1.0/users/m@x/mailFolders/f3/messages'' then
        \<lparr>status_code = messages_status, text_of = ValueJson stub_messages\<rparr>
      else if url = ''https://graph.microsoft.com/v1.0/users/m@x/messages/m1/attachments'' then
        \<lparr>status_code = 200,
         text_of = ValueJson [FileAttachment (Some ''report.xml.gz'')
                                ''application/octet-stream'' ''AQID'']\<rparr>
      else if url = ''https://graph.microsoft.com/v1.0/users/m@x/messages/m2/attachments'' then
        \<lparr>status_code = 200,
         text_of = ValueJson [FileAttachment (Some ''empty.gz'') ''application/gzip'' ''BAUG'']\<rparr>
      else if url = ''https://graph.microsoft.com/v1.0/users/m@x/messages/m3/attachments'' then
        \<lparr>status_code = 200,
         text_of = ValueJson [FileAttachment (Some ''report.zip'') ''application/zip'' ''UEsF'']\<rparr>
      else \<lparr>status_code = 404, text_of = NotJson\<rparr>)"

definition stub_http :: "int \<Rightarrow> request list \<Rightarrow> request \<Rightarrow> response" where
  "stub_http messages_status history r =
     (case r of
        Post url data \<Rightarrow> \<lparr>status_code = 200, text_of = TokenJson ''tok'' 3600\<rparr>
      | Get url headers \<Rightarrow> stub_get messages_status url
      | Delete url headers \<Rightarrow>
          (if url = ''https://graph.microsoft.com/v1.0/users/m@x/messages/m1''
           then \<lparr>status_code = 404, text_of = NotJson\<rparr>
           else \<lparr>status_code = 204, text_of = NotJson\<rparr>))"

definition stub_env :: "int \<Rightarrow> env" where
  "stub_env messages_status =
     \<lparr>b64decode = map_of [(''AQID'', [1, 2, 3]), (''BAUG'', [4, 5, 6]),
                          (''UEsD'', [80, 75, 3]), (''UEsF'', [80, 75, 5]),
                          (''UEsG'', [80, 75, 6]), (''UEsH'', [80, 75, 7]),
                          (''////'', [255, 255, 255])],
      decompress = map_of [([1, 2, 3], xml_bytes), ([4, 5, 6], [])],
      ZipFile = map_of [([80, 75, 3], stub_archive_txt_first),
                        ([80, 75, 5], stub_archive_xml_first),
                        ([80, 75, 6], stub_archive_empty),
                        ([80, 75, 7], stub_archive_same_name)],
      strptime = (\<lambda>d. if length d = 20 then Some (take 10 d @ '' '' @ take 8 (drop 11 d))
                      else None),
      http = stub_http messages_status,
      stdout_accepts = (\<lambda>line. True)\<rparr>"

definition stub_graph :: Graph where
  "stub_graph =
     \<lparr>token = None, token_expires = None, folder_id = None, client_id = ''id'',
      client_secret = ''secret'', tenant_id = ''t'', mailbox = ''m@x'',
      mailbox_folder = ''Inbox''\<rparr>"

definition stub_state :: state where
  "stub_state = \<lparr>graph = stub_graph, sent = [], stdout = [], clock = 0\<rparr>"

definition stub_config :: "string \<rightharpoonup> (string \<rightharpoonup> string)" where
  "stub_config =
     map_of [(''graph-dmarc-mail'',
              map_of [(''clientId'', ''id''), (''clientSecret'', ''secret''),
                      (''tenantId'', ''t''), (''mailbox'', ''m@x''),
                      (''mailbox_folder'', ''Inbox'')])]"

section \<open>Vocabulary for the statements about deletion\<close>

text \<open>The request that \<open>api_delete_request\<close> sends for one message, given the object.\<close>

definition delete_request :: "Graph \<Rightarrow> string \<Rightarrow> request" where
  "delete_request g item_id =
     Delete (GRAPH_URL (''/v1.0/users/'' @ mailbox g @ ''/messages/'' @ item_id))
            [(''Authorization'', ''Bearer '' @ fmt (token g))]"

text \<open>How many of the requests \<open>reqs\<close>, sent one after the other after \<open>history\<close>, are
  answered with a status other than 204.\<close>

definition failed_deletions :: "env \<Rightarrow> request list \<Rightarrow> request list \<Rightarrow> nat" where
  "failed_deletions e history reqs =
     length (filter (\<lambda>k. status_code (http e (history @ take k reqs) (reqs ! k)) \<noteq> 204)
                    [0..<length reqs])"

section \<open>Properties of the decoder\<close>

lemma split_str_not_Nil: "split_str sep cs \<noteq> []"
  by (induction cs) (auto split: list.splits)

lemma split_str_no_sep: "sep \<notin> set cs \<Longrightarrow> split_str sep cs = [cs]"
  by (induction cs) auto

lemma split_str_append:
  "sep \<notin> set ext \<Longrightarrow> \<exists>ps. ps \<noteq> [] \<and> split_str sep (pre @ sep # ext) = ps @ [ext]"
proof (induction pre)
  case Nil
  then have "split_str sep ([] @ sep # ext) = [[]] @ [ext]"
    by (simp add: split_str_no_sep)
  then show ?case by blast
next
  case (Cons c pre)
  then obtain q qs where ps: "split_str sep (pre @ sep # ext) = (q # qs) @ [ext]"
    by (metis list.exhaust)
  show ?case
  proof (cases "c = sep")
    case True
    with ps have "split_str sep ((c # pre) @ sep # ext) = ([] # q # qs) @ [ext]"
      by simp
    then show ?thesis by blast
  next
    case False
    with ps have "split_str sep ((c # pre) @ sep # ext) = ((c # q) # qs) @ [ext]"
      by simp
    then show ?thesis by blast
  qed
qed

lemma get_extention_last:
  "get_extention (Some n) = Some (last (split_str CHR ''.'' n))"
  using split_str_not_Nil [of "CHR ''.''" n]
  by (simp add: get_extention_def Let_def last_conv_nth)

lemma get_extention_no_dot:
  "CHR ''.'' \<notin> set n \<Longrightarrow> get_extention (Some n) = Some n"
  by (simp add: get_extention_last split_str_no_sep)

lemma get_extention_after_last_dot:
  assumes "CHR ''.'' \<notin> set ext"
  shows "get_extention (Some (pre @ CHR ''.'' # ext)) = Some ext"
proof -
  from split_str_append [OF assms, of pre]
  obtain ps where "split_str CHR ''.'' (pre @ CHR ''.'' # ext) = ps @ [ext]"
    by blast
  then show ?thesis by (simp add: get_extention_last)
qed

lemma get_dmarc_xml_FileAttachment:
  "get_dmarc_xml e (FileAttachment name content_type content_bytes) s =
     (case b64decode e content_bytes of
        None \<Rightarrow> (Inl BinasciiError, s)
      | Some raw_data \<Rightarrow>
          if gzip_signal content_type (get_extention name)
          then (Inr (decompress e raw_data), s)
          else if zip_signal content_type (get_extention name)
          then (Inr (fst (unzip_first e raw_data s)), snd (unzip_first e raw_data s))
          else (Inr None, s))"
  by (simp add: get_dmarc_xml_def Let_def split: option.splits prod.splits)

text \<open>
  Claim C1. An attachment whose content type is \<open>application/gzip\<close>, or whose file name
  ends in the extension \<open>gz\<close> or \<open>gzip\<close>, and whose decoded payload is a valid gzip
  stream, is decoded to exactly the decompressed bytes of that payload. Each of the
  signals is enough on its own, whatever the other one says.
\<close>

theorem C1_gzip_branch_returns_decompressed:
  assumes "content_type = ''application/gzip'' \<or> get_extention name = Some ''gz''
           \<or> get_extention name = Some ''gzip''"
    and "b64decode e content_bytes = Some raw_data"
    and "decompress e raw_data = Some xml"
  shows "get_dmarc_xml e (FileAttachment name content_type content_bytes) s
         = (Inr (Some xml), s)"
  using assms by (simp add: get_dmarc_xml_FileAttachment gzip_signal_def)

theorem C1_gzip_branch_witness:
  "get_dmarc_xml (stub_env 200)
     (FileAttachment (Some ''report.xml.gz'') ''application/octet-stream'' ''AQID'') stub_state
   = (Inr (Some [60, 114, 47, 62]), stub_state)
   \<and> get_dmarc_xml (stub_env 200)
     (FileAttachment None ''application/gzip'' ''AQID'') stub_state
   = (Inr (Some [60, 114, 47, 62]), stub_state)"
proof -
  have ext: "get_extention (Some ''report.xml.gz'') = Some ''gz''"
    using get_extention_after_last_dot [of "''gz''" "''report.xml''"] by simp
  have b: "b64decode (stub_env 200) ''AQID'' = Some [1, 2, 3]"
    by (simp add: stub_env_def)
  have d: "decompress (stub_env 200) [1, 2, 3] = Some [60, 114, 47, 62]"
    by (simp add: stub_env_def xml_bytes_def)
  show ?thesis
    using C1_gzip_branch_returns_decompressed
            [of "''application/octet-stream''" "Some ''report.xml.gz''" "stub_env 200"
                "''AQID''" "[1, 2, 3]" "[60, 114, 47, 62]" stub_state]
          C1_gzip_branch_returns_decompressed
            [of "''application/gzip''" None "stub_env 200"
                "''AQID''" "[1, 2, 3]" "[60, 114, 47, 62]" stub_state]
          ext b d
    by simp
qed

lemma map_of_rev_entries:
  "map_of (rev (map (\<lambda>info. (filename info, content info)) infos)) n =
     (if filter (\<lambda>info. filename info = n) infos = [] then None
      else Some (content (last (filter (\<lambda>info. filename info = n) infos))))"
  by (induction infos rule: rev_induct) simp_all

lemma read_last_of_name:
  "read zf n =
     (if filter (\<lambda>info. filename info = n) (filelist zf) = [] then None
      else content (last (filter (\<lambda>info. filename info = n) (filelist zf))))"
  by (simp add: read_def map_of_rev_entries)

lemma no_later_entry_of_name:
  "filter (\<lambda>info. filename info = n) later = [] \<longleftrightarrow> n \<notin> filename ` set later"
  by (induction later) auto

lemma read_first_name:
  "filelist zf = first_info # later \<Longrightarrow>
   read zf (filename first_info) =
     content (if filename first_info \<in> filename ` set later
              then last (filter (\<lambda>info. filename info = filename first_info) later)
              else first_info)"
  by (simp add: read_last_of_name no_later_entry_of_name)

lemma unzip_first_result:
  "ZipFile e raw_data = Some zf \<Longrightarrow>
   fst (unzip_first e raw_data s) =
     (case filelist zf of
        [] \<Rightarrow> None
      | first_info # later \<Rightarrow>
          if get_extention (Some (filename first_info)) = Some ''xml''
             \<and> stdout_accepts e (''File name: '' @ filename first_info)
          then read zf (filename first_info)
          else None)"
  by (simp add: unzip_first_def Let_def split: list.splits)

text \<open>
  Claim C2 says that, when the first listed entry has the extension \<open>xml\<close>, the decoder
  returns that entry's bytes. The script reads the archive by the entry's name, and a
  read by name gives the last entry of that name: for an archive that lists
  \<open>report.xml\<close> twice, with \<open><a/>\<close> first and \<open><b/>\<close> second, the decoder returns
  \<open><b/>\<close>, which is not the first entry's content.
\<close>

theorem C2_later_entry_of_same_name_counterexample:
  "b64decode (stub_env 200) ''UEsH'' = Some [80, 75, 7]
   \<and> ZipFile (stub_env 200) [80, 75, 7] = Some stub_archive_same_name
   \<and> filelist stub_archive_same_name =
       [\<lparr>filename = ''report.xml'', content = Some [60, 97, 47, 62]\<rparr>,
        \<lparr>filename = ''report.xml'', content = Some [60, 98, 47, 62]\<rparr>]
   \<and> fst (get_dmarc_xml (stub_env 200)
            (FileAttachment (Some ''report.zip'') ''application/zip'' ''UEsH'') stub_state)
       = Inr (Some [60, 98, 47, 62])
   \<and> fst (get_dmarc_xml (stub_env 200)
            (FileAttachment (Some ''report.zip'') ''application/zip'' ''UEsH'') stub_state)
       \<noteq> Inr (content (hd (filelist stub_archive_same_name)))"
proof -
  have ext: "get_extention (Some ''report.zip'') = Some ''zip''"
    using get_extention_after_last_dot [of "''zip''" "''report''"] by simp
  have ext_xml: "get_extention (Some ''report.xml'') = Some ''xml''"
    using get_extention_after_last_dot [of "''xml''" "''report''"] by simp
  have b: "b64decode (stub_env 200) ''UEsH'' = Some [80, 75, 7]"
    and z: "ZipFile (stub_env 200) [80, 75, 7] = Some stub_archive_same_name"
    and p: "stdout_accepts (stub_env 200) l" for l
    by (simp_all add: stub_env_def)
  have "fst (get_dmarc_xml (stub_env 200)
            (FileAttachment (Some ''report.zip'') ''application/zip'' ''UEsH'') stub_state)
       = Inr (Some [60, 98, 47, 62])"
    by (simp add: get_dmarc_xml_FileAttachment ext b gzip_signal_def zip_signal_def
          unzip_first_result [OF z] stub_archive_same_name_def ext_xml p read_def)
  with b z show ?thesis by (simp add: stub_archive_same_name_def)
qed

text \<open>
  Claim C2, amended. For an attachment classified as zip (a zip signal and no gzip
  signal) whose payload opens as an archive: an empty listing gives failure; otherwise
  only the name of the first listed entry counts. If its extension is not \<open>xml\<close> the
  result is failure whatever the later entries are. If it is \<open>xml\<close> (and the name can
  be printed) the result is what reading by that name yields: the first entry's bytes
  when no later entry has the same name, and the bytes of the last entry of that name
  otherwise.
\<close>

theorem C2_zip_first_entry_name_decides:
  assumes "\<not> gzip_signal content_type (get_extention name)"
    and "content_type = ''application/zip'' \<or> get_extention name = Some ''zip''"
    and "b64decode e content_bytes = Some raw_data"
    and "ZipFile e raw_data = Some zf"
  shows "fst (get_dmarc_xml e (FileAttachment name content_type content_bytes) s) =
           (case filelist zf of
              [] \<Rightarrow> Inr None
            | first_info # later \<Rightarrow>
                if get_extention (Some (filename first_info)) = Some ''xml''
                   \<and> stdout_accepts e (''File name: '' @ filename first_info)
                then Inr (content
                       (if filename first_info \<in> filename ` set later
                        then last (filter (\<lambda>info. filename info = filename first_info) later)
                        else first_info))
                else Inr None)"
proof (cases "filelist zf")
  case Nil
  with assms show ?thesis
    by (simp add: get_dmarc_xml_FileAttachment zip_signal_def unzip_first_result)
next
  case (Cons first_info later)
  from read_first_name [OF Cons] Cons assms show ?thesis
    by (simp add: get_dmarc_xml_FileAttachment zip_signal_def unzip_first_result)
qed

theorem C2_zip_first_entry_name_decides_witness:
  "fst (get_dmarc_xml (stub_env 200)
          (FileAttachment (Some ''report.zip'') ''application/octet-stream'' ''UEsD'') stub_state)
     = Inr None
   \<and> fst (get_dmarc_xml (stub_env 200)
          (FileAttachment (Some ''report.zip'') ''application/octet-stream'' ''UEsF'') stub_state)
     = Inr (Some [60, 114, 47, 62])
   \<and> fst (get_dmarc_xml (stub_env 200)
          (FileAttachment None ''application/zip'' ''UEsG'') stub_state)
     = Inr None
   \<and> fst (get_dmarc_xml (stub_env 200)
          (FileAttachment None ''application/zip'' ''UEsH'') stub_state)
     = Inr (Some [60, 98, 47, 62])"
proof -
  have ext: "get_extention (Some ''report.zip'') = Some ''zip''"
    using get_extention_after_last_dot [of "''zip''" "''report''"] by simp
  have ext_txt: "get_extention (Some ''notes.txt'') = Some ''txt''"
    using get_extention_after_last_dot [of "''txt''" "''notes''"] by simp
  have ext_xml: "get_extention (Some ''report.xml'') = Some ''xml''"
    using get_extention_after_last_dot [of "''xml''" "''report''"] by simp
  have b: "b64decode (stub_env 200) ''UEsD'' = Some [80, 75, 3]"
    "b64decode (stub_env 200) ''UEsF'' = Some [80, 75, 5]"
    "b64decode (stub_env 200) ''UEsG'' = Some [80, 75, 6]"
    "b64decode (stub_env 200) ''UEsH'' = Some [80, 75, 7]"
    by (simp_all add: stub_env_def)
  have z: "ZipFile (stub_env 200) [80, 75, 3] = Some stub_archive_txt_first"
    "ZipFile (stub_env 200) [80, 75, 5] = Some stub_archive_xml_first"
    "ZipFile (stub_env 200) [80, 75, 6] = Some stub_archive_empty"
    "ZipFile (stub_env 200) [80, 75, 7] = Some stub_archive_same_name"
    by (simp_all add: stub_env_def)
  have p: "stdout_accepts (stub_env 200) l" for l
    by (simp add: stub_env_def)
  have g: "\<not> gzip_signal ''application/octet-stream'' (Some ''zip'')"
    "\<not> gzip_signal ''application/zip'' None"
    by (simp_all add: gzip_signal_def)
  show ?thesis
    using C2_zip_first_entry_name_decides
            [of "''application/octet-stream''" "Some ''report.zip''" "stub_env 200" "''UEsD''"
                "[80, 75, 3]" stub_archive_txt_first stub_state]
          C2_zip_first_entry_name_decides
            [of "''application/octet-stream''" "Some ''report.zip''" "stub_env 200" "''UEsF''"
                "[80, 75, 5]" stub_archive_xml_first stub_state]
          C2_zip_first_entry_name_decides
            [of "''application/zip''" None "stub_env 200" "''UEsG''"
                "[80, 75, 6]" stub_archive_empty stub_state]
          C2_zip_first_entry_name_decides
            [of "''application/zip''" None "stub_env 200" "''UEsH''"
                "[80, 75, 7]" stub_archive_same_name stub_state]
          ext ext_txt ext_xml b z g p
    by (simp add: stub_archive_txt_first_def stub_archive_xml_first_def
          stub_archive_empty_def stub_archive_same_name_def xml_bytes_def get_extention_def)
qed

text \<open>
  Claim C3 says that the extension is absent when the file name has no full stop. It is
  not: \<open>split\<close> returns the whole name as its only part, so the file name \<open>gz\<close> has the
  extension \<open>gz\<close> and selects the gzip branch.
\<close>

theorem C3_extension_without_dot_counterexample:
  "CHR ''.'' \<notin> set ''gz''
   \<and> get_extention (Some ''gz'') = Some ''gz''
   \<and> gzip_signal ''text/plain'' (get_extention (Some ''gz''))"
  by (simp add: get_extention_no_dot gzip_signal_def)

text \<open>
  Claim C3, amended. The extension is absent only when the file name is absent; it is
  the whole file name when that contains no full stop, and the part after the last full
  stop otherwise.
\<close>

theorem C3_extension_is_last_dot_part:
  "get_extention None = None
   \<and> (\<forall>n. CHR ''.'' \<notin> set n \<longrightarrow> get_extention (Some n) = Some n)
   \<and> (\<forall>pre ext. CHR ''.'' \<notin> set ext \<longrightarrow>
         get_extention (Some (pre @ CHR ''.'' # ext)) = Some ext)"
  by (simp add: get_extention_no_dot get_extention_after_last_dot)
     (simp add: get_extention_def)

theorem C3_extension_is_last_dot_part_witness:
  "get_extention None = None
   \<and> get_extention (Some ''README'') = Some ''README''
   \<and> get_extention (Some ''report.xml.gz'') = Some ''gz''"
proof -
  have a: "CHR ''.'' \<notin> set ''README''" and b: "CHR ''.'' \<notin> set ''gz''"
    by simp_all
  from C3_extension_is_last_dot_part
  have n: "get_extention None = None"
    and nodot: "CHR ''.'' \<notin> set ''README'' \<longrightarrow> get_extention (Some ''README'') = Some ''README''"
    and dot: "CHR ''.'' \<notin> set ''gz'' \<longrightarrow>
         get_extention (Some (''report.xml'' @ CHR ''.'' # ''gz'')) = Some ''gz''"
    by blast+
  with a b show ?thesis by simp
qed

text \<open>
  Claim C6. When the payload is not a valid stream of the format that its signals select
  (gzip signals are looked at first), the decoder returns the failure value \<open>None\<close> and
  raises nothing: the gzip stream does not decompress, the zip archive does not open,
  or none of its entries can be read.
\<close>

theorem C6_invalid_payload_fails_without_raising:
  assumes "b64decode e content_bytes = Some raw_data"
    and "(gzip_signal content_type (get_extention name) \<and> decompress e raw_data = None)
         \<or> (\<not> gzip_signal content_type (get_extention name)
             \<and> zip_signal content_type (get_extention name)
             \<and> (ZipFile e raw_data = None
                 \<or> (\<exists>zf. ZipFile e raw_data = Some zf \<and> read zf = (\<lambda>n. None))))"
  shows "fst (get_dmarc_xml e (FileAttachment name content_type content_bytes) s) = Inr None"
  using assms
  by (auto simp add: get_dmarc_xml_FileAttachment unzip_first_def Let_def
           split: list.splits)

theorem C6_invalid_payload_witness:
  "fst (get_dmarc_xml (stub_env 200)
          (FileAttachment (Some ''report.gz'') ''application/zip'' ''////'') stub_state)
     = Inr None
   \<and> fst (get_dmarc_xml (stub_env 200)
          (FileAttachment (Some ''report.zip'') ''text/plain'' ''////'') stub_state)
     = Inr None"
proof -
  have ext: "get_extention (Some ''report.zip'') = Some ''zip''"
    using get_extention_after_last_dot [of "''zip''" "''report''"] by simp
  have ext2: "get_extention (Some ''report.gz'') = Some ''gz''"
    using get_extention_after_last_dot [of "''gz''" "''report''"] by simp
  have b: "b64decode (stub_env 200) ''////'' = Some [255, 255, 255]"
    by (simp add: stub_env_def)
  have d: "decompress (stub_env 200) [255, 255, 255] = None"
    "ZipFile (stub_env 200) [255, 255, 255] = None"
    by (simp_all add: stub_env_def)
  show ?thesis
    using C6_invalid_payload_fails_without_raising
            [of "stub_env 200" "''////''" "[255, 255, 255]" "''application/zip''"
                "Some ''report.gz''" stub_state]
          C6_invalid_payload_fails_without_raising
            [of "stub_env 200" "''////''" "[255, 255, 255]" "''text/plain''"
                "Some ''report.zip''" stub_state]
          ext ext2 b d
    by (simp add: gzip_signal_def zip_signal_def)
qed

text \<open>
  Claim C8. With no token held the GET path returns \<open>None\<close> and the DELETE path returns
  \<open>False\<close>; neither raises, and the state, with the list of requests sent, is
  unchanged.
\<close>

theorem C8_absent_token_fails_closed:
  assumes "token (graph s) = None"
  shows "api_get_request e endpoint s = (Inr None, s)
         \<and> api_delete_request e endpoint s = (False, s)"
  using assms by (simp add: api_get_request_def api_delete_request_def truthy_def)

theorem C8_absent_token_witness:
  "api_get_request (stub_env 200) ''https://graph.microsoft.com/v1.0/users/m@x/mailFolders''
     stub_state = (Inr None, stub_state)
   \<and> api_delete_request (stub_env 200)
       ''https://graph.microsoft.com/v1.0/users/m@x/messages/m1'' stub_state
     = (False, stub_state)"
proof -
  have "token (graph stub_state) = None"
    by (simp add: stub_state_def stub_graph_def)
  from C8_absent_token_fails_closed [OF this] show ?thesis by simp
qed

section \<open>Properties of the mail client\<close>

lemmas stub_defs = stub_env_def stub_http_def stub_get_def stub_state_def stub_graph_def
  stub_messages_def xml_bytes_def

lemma get_token_stub:
  "get_token (stub_env 200) stub_state =
     (Inr (), stub_state\<lparr>graph := stub_graph\<lparr>token := Some ''tok'', token_expires := Some 3600\<rparr>,
        sent := [Post ''https://login.microsoftonline.com/t/oauth2/v2.0/token''
                   [(''grant_type'', ''client_credentials''), (''client_id'', ''id''),
                    (''client_secret'', ''secret''),
                    (''scope'', ''https://graph.microsoft.com/.default'')]]\<rparr>)"
  by (simp add: get_token_def get_fresh_token_def send_def LOGIN_URL_def stub_defs)

text \<open>When \<open>get_token\<close> refreshes and when it does not, for any servers and any state
  that holds a token.\<close>

lemma get_fresh_token_sends:
  "sent (snd (get_fresh_token e s)) =
     sent s @ [Post (LOGIN_URL (tenant_id (graph s)))
                 [(''grant_type'', ''client_credentials''),
                  (''client_id'', client_id (graph s)),
                  (''client_secret'', client_secret (graph s)),
                  (''scope'', ''https://graph.microsoft.com/.default'')]]"
  by (simp add: get_fresh_token_def send_def Let_def split: body.splits)

lemma get_token_refreshes_before_margin:
  "token (graph s) = Some t \<Longrightarrow> token_expires (graph s) = Some expires \<Longrightarrow>
   clock s < expires + 300 \<Longrightarrow> get_token e s = get_fresh_token e s"
  by (simp add: get_token_def)

lemma get_token_keeps_after_margin:
  "token (graph s) = Some t \<Longrightarrow> token_expires (graph s) = Some expires \<Longrightarrow>
   expires + 300 \<le> clock s \<Longrightarrow> get_token e s = (Inr (), s)"
  by (simp add: get_token_def)

text \<open>
  Claim C4 says that a second call made while the token is still valid sends no token
  request, and that a call after expiry sends one. \<open>get_token\<close> compares the other way
  round: it asks for a fresh token whenever \<open>_token_expires + 300\<close> is still ahead of
  the clock. A token obtained at time 0 for 3600 seconds is requested again at time 10
  (two requests in all), and is reused without any request at time 4000, after it has
  expired.
\<close>

theorem C4_valid_token_is_requested_again:
  "(case get_token (stub_env 200) stub_state of
      (r1, s1) \<Rightarrow>
        (case get_token (stub_env 200) (s1\<lparr>clock := 10\<rparr>) of
           (r2, s2) \<Rightarrow>
             (case get_token (stub_env 200) (s1\<lparr>clock := 4000\<rparr>) of
                (r3, s3) \<Rightarrow>
                  r1 = Inr () \<and> r2 = Inr () \<and> r3 = Inr ()
                  \<and> token (graph s1) = Some ''tok'' \<and> token_expires (graph s1) = Some 3600
                  \<and> length (sent s1) = 1 \<and> length (sent s2) = 2 \<and> length (sent s3) = 1)))"
  by (simp add: get_token_stub)
     (simp add: get_token_def get_fresh_token_def send_def LOGIN_URL_def stub_defs)

text \<open>
  Claim C5 says that a failed data call never makes the run raise. When the message
  listing answers 500, \<open>api_get_request\<close> returns \<open>None\<close> and the \<open>for\<close> loop of
  \<open>process_dmarc_mail_items\<close> iterates over it: the run ends in a TypeError.
\<close>

theorem C5_failed_message_listing_raises:
  "fst (process_dmarc_mail_items (stub_env 500) stub_state) = Inl TypeError"
  by (simp add: process_dmarc_mail_items_def get_folder_id_def get_token_def
        get_fresh_token_def api_get_request_def send_def truthy_def fmt_def
        LOGIN_URL_def GRAPH_URL_def stub_defs)

lemma scan_folders_MailFolders:
  "scan_folders target (map (\<lambda>(d, i). MailFolder d i) fs) acc =
     Inr (case filter (\<lambda>(d, i). d = target) fs of
            [] \<Rightarrow> acc
          | m # ms \<Rightarrow> Some (snd (last (m # ms))))"
  by (induction fs arbitrary: acc) (auto split: list.splits)

lemma filter_distinct_key:
  "distinct (map fst fs) \<Longrightarrow> (t, i) \<in> set fs \<Longrightarrow> filter (\<lambda>(d, i). d = t) fs = [(t, i)]"
proof (induction fs)
  case Nil
  then show ?case by simp
next
  case (Cons f fs)
  show ?case
  proof (cases "f = (t, i)")
    case True
    with Cons.prems have "t \<notin> fst ` set fs" by simp
    then have "filter (\<lambda>(d, i). d = t) fs = []"
      by (auto simp add: filter_empty_conv image_iff)
    with True show ?thesis by simp
  next
    case False
    with Cons.prems have "(t, i) \<in> set fs" "fst f \<noteq> t"
      by (auto simp add: image_iff)
    with Cons show ?thesis by (auto split: prod.splits)
  qed
qed


text \<open>
  Claim C7. Once a token is held and no folder id is cached, and the folder listing
  answers with the folders \<open>fs\<close> (display name, id), \<open>get_folder_id\<close> returns normally
  and sets the folder id to that of the last folder whose display name equals the
  configured one, to nothing when no display name is equal, and, when the display names
  are distinct, to the id of the one folder that carries the configured name.
\<close>

theorem C7_folder_resolution_last_match:
  assumes "get_token e s = (Inr (), s1)"
    and "truthy (token (graph s1))"
    and "\<not> truthy (folder_id (graph s1))"
    and "http e (sent s1)
           (Get (GRAPH_URL (''/v1.0/users/'' @ mailbox (graph s1) @ ''/mailFolders''))
                [(''Authorization'', ''Bearer '' @ fmt (token (graph s1)))])
         = \<lparr>status_code = 200, text_of = ValueJson (map (\<lambda>(d, i). MailFolder d i) fs)\<rparr>"
  shows "fst (get_folder_id e s) = Inr ()
         \<and> folder_id (graph (snd (get_folder_id e s))) =
             (case filter (\<lambda>(d, i). d = mailbox_folder (graph s1)) fs of
                [] \<Rightarrow> None
              | m # ms \<Rightarrow> Some (snd (last (m # ms))))
         \<and> (distinct (map fst fs) \<longrightarrow>
              (\<forall>i. (mailbox_folder (graph s1), i) \<in> set fs \<longrightarrow>
                 folder_id (graph (snd (get_folder_id e s))) = Some i))"
proof -
  let ?found = "case filter (\<lambda>(d, i). d = mailbox_folder (graph s1)) fs of
                  [] \<Rightarrow> None
                | m # ms \<Rightarrow> Some (snd (last (m # ms)))"
  have run: "get_folder_id e s =
          (Inr (), s1\<lparr>sent := sent s1 @
                 [Get (GRAPH_URL (''/v1.0/users/'' @ mailbox (graph s1) @ ''/mailFolders''))
                      [(''Authorization'', ''Bearer '' @ fmt (token (graph s1)))]],
               graph := (graph s1)\<lparr>folder_id := ?found\<rparr>\<rparr>)"
    using assms
    by (simp add: get_folder_id_def api_get_request_def send_def Let_def
          scan_folders_MailFolders)
  have "?found = Some i" if "distinct (map fst fs)" "(mailbox_folder (graph s1), i) \<in> set fs"
    for i
    using filter_distinct_key [OF that] by simp
  with run show ?thesis by simp
qed

theorem C7_folder_resolution_witness:
  "fst (get_folder_id (stub_env 200) stub_state) = Inr ()
   \<and> folder_id (graph (snd (get_folder_id (stub_env 200) stub_state))) = Some ''f3''"
proof -
  let ?s1 = "stub_state\<lparr>graph := stub_graph\<lparr>token := Some ''tok'', token_expires := Some 3600\<rparr>,
        sent := [Post ''https://login.microsoftonline.com/t/oauth2/v2.0/token''
                   [(''grant_type'', ''client_credentials''), (''client_id'', ''id''),
                    (''client_secret'', ''secret''),
                    (''scope'', ''https://graph.microsoft.com/.default'')]]\<rparr>"
  have a: "truthy (token (graph ?s1))" "\<not> truthy (folder_id (graph ?s1))"
    by (simp_all add: truthy_def stub_defs)
  have b: "http (stub_env 200) (sent ?s1)
           (Get (GRAPH_URL (''/v1.0/users/'' @ mailbox (graph ?s1) @ ''/mailFolders''))
                [(''Authorization'', ''Bearer '' @ fmt (token (graph ?s1)))])
         = \<lparr>status_code = 200,
            text_of = ValueJson (map (\<lambda>(d, i). MailFolder d i)
               [(''Archive'', ''f1''), (''Inbox'', ''f2''), (''Inbox'', ''f3'')])\<rparr>"
    by (simp add: GRAPH_URL_def fmt_def stub_defs)
  from C7_folder_resolution_last_match [OF get_token_stub a b]
  show ?thesis by (simp add: stub_defs)
qed

section \<open>Properties of the orchestrator\<close>

lemma api_get_request_graph: "graph (snd (api_get_request e endpoint s)) = graph s"
  by (simp add: api_get_request_def send_def Let_def split: body.splits)

lemma unzip_first_state:
  "graph (snd (unzip_first e raw s)) = graph s"
  by (simp add: unzip_first_def print_def Let_def split: option.splits list.splits)

lemma get_dmarc_xml_graph: "graph (snd (get_dmarc_xml e a s)) = graph s"
proof (cases a)
  case (FileAttachment n ct cb)
  then show ?thesis
    by (simp add: get_dmarc_xml_FileAttachment unzip_first_state split: option.splits)
qed (simp_all add: get_dmarc_xml_def)

lemma fst_unzip_first: "fst (unzip_first e raw s) = fst (unzip_first e raw s')"
  by (simp add: unzip_first_def Let_def split: option.splits list.splits)

lemma fst_get_dmarc_xml: "fst (get_dmarc_xml e a s) = fst (get_dmarc_xml e a s')"
proof (cases a)
  case (FileAttachment n ct cb)
  then show ?thesis
    by (simp add: get_dmarc_xml_FileAttachment fst_unzip_first [of e _ s s']
          split: option.splits)
qed (simp_all add: get_dmarc_xml_def)

text \<open>What one pass of the loop body can do to the mapping.\<close>

lemma process_attachment_result:
  assumes "process_attachment e k a acc s = (Inr acc', s')"
  shows "graph s' = graph s \<and> (acc' = acc \<or> (\<exists>d. d \<noteq> [] \<and> acc' = AList.update k d acc))"
proof (cases a)
  case (FileAttachment n ct cb)
  obtain r s3 where g: "get_dmarc_xml e a (print (Str (''Content type: '' @ ct))
        (print (Str (''Name: '' @ fmt n)) s)) = (r, s3)"
    by (cases "get_dmarc_xml e a (print (Str (''Content type: '' @ ct))
        (print (Str (''Name: '' @ fmt n)) s))")
  have "graph s3 = graph s"
    using get_dmarc_xml_graph [of e a "print (Str (''Content type: '' @ ct))
        (print (Str (''Name: '' @ fmt n)) s)"] g
    by (simp add: print_def)
  with assms g FileAttachment show ?thesis
    by (auto simp add: process_attachment_def Let_def print_def
          split: sum.splits option.splits if_splits)
qed (use assms in \<open>simp_all add: process_attachment_def\<close>)

lemma process_item_MailMessage:
  "process_item e (MailMessage i r sub) acc s =
     (case strptime e r of
        None \<Rightarrow> (Inl ValueError, s)
      | Some d \<Rightarrow>
          (let s2 = print (Str (''Subject: '' @ sub)) (print (Str (''Received: '' @ d)) s);
               res = api_get_request e
                       (GRAPH_URL (''/v1.0/users/'' @ mailbox (graph s2) @ ''/messages/'' @ i
                                   @ ''/attachments'')) s2
           in case fst res of
                Inl err \<Rightarrow> (Inl err, snd res)
              | Inr None \<Rightarrow> (Inr acc, snd res)
              | Inr (Some []) \<Rightarrow> (Inr acc, snd res)
              | Inr (Some (attachment # rest)) \<Rightarrow>
                  process_attachment e i attachment acc (snd res)))"
  by (simp add: process_item_def Let_def split: option.splits prod.splits sum.splits list.splits)


lemma process_item_result:
  assumes "process_item e item acc s = (Inr acc', s')"
  shows "graph s' = graph s
         \<and> (acc' = acc \<or> (\<exists>k d. d \<noteq> [] \<and> acc' = AList.update k d acc))"
proof (cases item)
  case (MailMessage i r sub)
  from assms MailMessage obtain d where d: "strptime e r = Some d"
    by (cases "strptime e r") (simp_all add: process_item_MailMessage)
  define s2 where "s2 = print (Str (''Subject: '' @ sub)) (print (Str (''Received: '' @ d)) s)"
  define res where "res = api_get_request e
      (GRAPH_URL (''/v1.0/users/'' @ mailbox (graph s2) @ ''/messages/'' @ i
                  @ ''/attachments'')) s2"
  have g2: "graph s2 = graph s"
    by (simp add: s2_def print_def)
  have g3: "graph (snd res) = graph s"
    unfolding res_def using g2 by (simp only: api_get_request_graph)
  have run: "(case fst res of
                Inl err \<Rightarrow> (Inl err, snd res)
              | Inr None \<Rightarrow> (Inr acc, snd res)
              | Inr (Some []) \<Rightarrow> (Inr acc, snd res)
              | Inr (Some (attachment # rest)) \<Rightarrow>
                  process_attachment e i attachment acc (snd res)) = (Inr acc', s')"
    using assms
    unfolding MailMessage process_item_MailMessage d option.case Let_def
      s2_def [symmetric] res_def [symmetric] .
  show ?thesis
  proof (cases "fst res")
    case (Inl err)
    with run show ?thesis by simp
  next
    case (Inr v)
    show ?thesis
    proof (cases v)
      case None
      with run Inr g3 show ?thesis by simp
    next
      case (Some as)
      show ?thesis
      proof (cases as)
        case Nil
        with run Inr Some g3 show ?thesis by simp
      next
        case (Cons a rest)
        with run Inr Some have "process_attachment e i a acc (snd res) = (Inr acc', s')"
          by simp
        from process_attachment_result [OF this] g3 show ?thesis by auto
      qed
    qed
  qed
next
  case (MailFolder d i)
  with assms show ?thesis by (simp add: process_item_def)
next
  case (FileAttachment n ct cb)
  with assms show ?thesis by (simp add: process_item_def)
qed

lemma set_update_values: "snd ` set (AList.update k v al) \<subseteq> insert v (snd ` set al)"
  by (induction al) auto

lemma process_loop_result:
  assumes "process_loop e msgs acc s = (Inr acc', s')" and "[] \<notin> snd ` set acc"
  shows "graph s' = graph s \<and> [] \<notin> snd ` set acc'"
  using assms
proof (induction msgs arbitrary: acc s)
  case Nil
  then show ?case by simp
next
  case (Cons m msgs)
  obtain r1 s1 where step: "process_item e m acc s = (r1, s1)"
    by (cases "process_item e m acc s")
  with Cons.prems(1) obtain acc1 where r1: "r1 = Inr acc1"
    by (cases r1) simp_all
  from process_item_result [OF step [unfolded r1]]
  have g: "graph s1 = graph s"
    and acc1: "acc1 = acc \<or> (\<exists>k d. d \<noteq> [] \<and> acc1 = AList.update k d acc)"
    by simp_all
  have ne: "[] \<notin> snd ` set acc1"
  proof (cases "acc1 = acc")
    case True
    with Cons.prems(2) show ?thesis by simp
  next
    case False
    with acc1 obtain k d where d: "d \<noteq> []" "acc1 = AList.update k d acc"
      by blast
    with set_update_values [of k d acc] Cons.prems(2) show ?thesis
      by blast
  qed
  from Cons.prems(1) step r1 have "process_loop e msgs acc1 s1 = (Inr acc', s')"
    by simp
  from Cons.IH [OF this ne] g show ?case by simp
qed

lemma api_get_request_Some_token:
  "fst (api_get_request e endpoint s) = Inr (Some v) \<Longrightarrow> truthy (token (graph s))"
  by (cases "truthy (token (graph s))") (simp_all add: api_get_request_def)

lemma process_dmarc_mail_items_unfold:
  "process_dmarc_mail_items e s =
     (case fst (get_folder_id e s) of
        Inl err \<Rightarrow> (Inl err, snd (get_folder_id e s))
      | Inr u \<Rightarrow>
          (let s1 = snd (get_folder_id e s);
               res = api_get_request e
                 (GRAPH_URL (''/v1.0/users/'' @ mailbox (graph s1) @ ''/mailFolders/''
                            @ fmt (folder_id (graph s1)) @ ''/messages'')) s1
           in case fst res of
                Inl err \<Rightarrow> (Inl err, snd res)
              | Inr None \<Rightarrow> (Inl TypeError, snd res)
              | Inr (Some messages) \<Rightarrow> process_loop e messages [] (snd res)))"
  by (simp add: process_dmarc_mail_items_def Let_def
        split: prod.splits sum.splits option.splits)

lemma process_dmarc_mail_items_result:
  assumes "process_dmarc_mail_items e s = (Inr processed, s')"
  shows "truthy (token (graph s')) \<and> [] \<notin> snd ` set processed"
proof -
  define s1 where "s1 = snd (get_folder_id e s)"
  define res where "res = api_get_request e
                 (GRAPH_URL (''/v1.0/users/'' @ mailbox (graph s1) @ ''/mailFolders/''
                            @ fmt (folder_id (graph s1)) @ ''/messages'')) s1"
  have run: "(case fst (get_folder_id e s) of
        Inl err \<Rightarrow> (Inl err, s1)
      | Inr u \<Rightarrow>
          (case fst res of
                Inl err \<Rightarrow> (Inl err, snd res)
              | Inr None \<Rightarrow> (Inl TypeError, snd res)
              | Inr (Some messages) \<Rightarrow> process_loop e messages [] (snd res)))
        = (Inr processed, s')"
    using assms
    unfolding process_dmarc_mail_items_unfold Let_def s1_def [symmetric] res_def [symmetric] .
  then obtain msgs where r: "fst res = Inr (Some msgs)"
    and loop: "process_loop e msgs [] (snd res) = (Inr processed, s')"
    by (auto split: sum.splits option.splits)
  have tok: "truthy (token (graph s1))"
    using r unfolding res_def by (rule api_get_request_Some_token)
  have "graph (snd res) = graph s1"
    unfolding res_def by (rule api_get_request_graph)
  with process_loop_result [OF loop] tok show ?thesis by simp
qed

lemma failed_deletions_Nil: "failed_deletions e h [] = 0"
  by (simp add: failed_deletions_def)

lemma failed_deletions_Cons:
  "failed_deletions e h (r # rs) =
     (if status_code (http e h r) \<noteq> 204 then 1 else 0) + failed_deletions e (h @ [r]) rs"
proof -
  have "[0..<Suc n] = 0 # map Suc [0..<n]" for n
    by (simp add: upt_conv_Cons map_Suc_upt del: upt_Suc)
  then have "[0..<length (r # rs)] = 0 # map Suc [0..<length rs]"
    by (simp del: upt_Suc)
  then show ?thesis
    by (simp add: failed_deletions_def filter_map o_def)
qed

lemma api_delete_request_token:
  "truthy (token (graph s)) \<Longrightarrow>
   api_delete_request e (GRAPH_URL (''/v1.0/users/'' @ mailbox (graph s) @ ''/messages/'' @ i)) s
     = (status_code (http e (sent s) (delete_request (graph s) i)) = 204,
        s\<lparr>sent := sent s @ [delete_request (graph s) i]\<rparr>)"
  by (simp add: api_delete_request_def delete_request_def send_def Let_def)

lemma delete_mail_items_effect:
  assumes "truthy (token g)"
  shows "graph s = g \<Longrightarrow>
         delete_mail_items e ids s =
           (Inr (), s\<lparr>sent := sent s @ map (delete_request g) ids,
                      stdout := stdout s @
                        replicate (failed_deletions e (sent s) (map (delete_request g) ids))
                                  (Str ''Unable to delete processed item! {id}'')\<rparr>)"
proof (induction ids arbitrary: s)
  case Nil
  then show ?case by (simp add: failed_deletions_Nil)
next
  case (Cons i ids)
  let ?line = "Str ''Unable to delete processed item! {id}''"
  let ?s1 = "s\<lparr>sent := sent s @ [delete_request g i]\<rparr>"
  have del: "api_delete_request e
               (GRAPH_URL (''/v1.0/users/'' @ mailbox (graph s) @ ''/messages/'' @ i)) s
             = (status_code (http e (sent s) (delete_request g i)) = 204, ?s1)"
    using api_delete_request_token [of s e i] assms Cons.prems by simp
  show ?case
  proof (cases "status_code (http e (sent s) (delete_request g i)) = 204")
    case True
    have "graph ?s1 = g" using Cons.prems by simp
    from Cons.IH [OF this] del True show ?thesis
      by (simp add: failed_deletions_Cons)
  next
    case False
    have "graph (print ?line ?s1) = g" using Cons.prems by (simp add: print_def)
    from Cons.IH [OF this] del False show ?thesis
      by (simp add: failed_deletions_Cons print_def replicate_append_same)
  qed
qed

lemma fold_print_item:
  "fold print_item kvs s =
     s\<lparr>stdout := stdout s @
          map (\<lambda>kv. Str (''ID: '' @ fst kv @ '': Bytes: '' @ str_nat (length (snd kv)))) kvs\<rparr>"
  by (induction kvs arbitrary: s) (simp_all add: print_item_def print_def)

text \<open>
  Claim C9. When \<open>main\<close> has loaded its settings and processing has returned the mapping
  \<open>processed\<close>, \<open>main\<close> returns normally; the requests it sends after processing are
  exactly one DELETE per key of the mapping, in order, whatever the answers to the
  earlier ones are; and every answer other than 204 adds one line to the output.
\<close>

theorem C9_main_deletes_processed_ids:
  assumes "config ''graph-dmarc-mail'' = Some settings"
    and "Graph_init settings = Inr g"
    and "process_dmarc_mail_items e (s0\<lparr>graph := g\<rparr>) = (Inr processed, s1)"
  shows "fst (main e config s0) = Inr ()
         \<and> sent (snd (main e config s0)) =
             sent s1 @ map (delete_request (graph s1)) (map fst processed)
         \<and> stdout (snd (main e config s0)) =
             stdout s1
             @ map (\<lambda>kv. Str (''ID: '' @ fst kv @ '': Bytes: '' @ str_nat (length (snd kv))))
                   processed
             @ replicate
                 (failed_deletions e (sent s1)
                    (map (delete_request (graph s1)) (map fst processed)))
                 (Str ''Unable to delete processed item! {id}'')"
proof -
  have tok: "truthy (token (graph s1))"
    using process_dmarc_mail_items_result [OF assms(3)] by simp
  have m: "main e config s0 =
             delete_mail_items e (map fst processed) (fold print_item processed s1)"
    using assms by (simp add: main_def)
  have g: "graph (fold print_item processed s1) = graph s1"
    by (simp add: fold_print_item)
  show ?thesis
    unfolding m delete_mail_items_effect [OF tok g]
    by (simp add: fold_print_item)
qed

lemmas run_defs = process_dmarc_mail_items_def get_folder_id_def get_token_def
  get_fresh_token_def api_get_request_def send_def truthy_def fmt_def LOGIN_URL_def
  GRAPH_URL_def process_item_def process_attachment_def get_dmarc_xml_def unzip_first_def
  print_def get_extention_def gzip_signal_def zip_signal_def Let_def read_def
  stub_archive_xml_first_def

lemma Graph_init_stub:
  "stub_config ''graph-dmarc-mail'' = Some (map_of [(''clientId'', ''id''),
       (''clientSecret'', ''secret''), (''tenantId'', ''t''), (''mailbox'', ''m@x''),
       (''mailbox_folder'', ''Inbox'')])"
  "Graph_init (map_of [(''clientId'', ''id''),
       (''clientSecret'', ''secret''), (''tenantId'', ''t''), (''mailbox'', ''m@x''),
       (''mailbox_folder'', ''Inbox'')]) = Inr stub_graph"
  by (simp_all add: stub_config_def Graph_init_def stub_graph_def)

lemma stub_run:
  "process_dmarc_mail_items (stub_env 200) stub_state =
     (Inr [(''m1'', [60, 114, 47, 62]), (''m3'', [60, 114, 47, 62])],
      \<lparr>graph = stub_graph\<lparr>token := Some ''tok'', token_expires := Some 3600,
                           folder_id := Some ''f3''\<rparr>,
       sent =
         [Post ''https://login.microsoftonline.com/t/oauth2/v2.0/token''
            [(''grant_type'', ''client_credentials''), (''client_id'', ''id''),
             (''client_secret'', ''secret''),
             (''scope'', ''https://graph.microsoft.com/.default'')],
          Get ''https://graph.microsoft.com/v1.0/users/m@x/mailFolders''
            [(''Authorization'', ''Bearer tok'')],
          Get ''https://graph.microsoft.com/v1.0/users/m@x/mailFolders/f3/messages''
            [(''Authorization'', ''Bearer tok'')],
          Get ''https://graph.microsoft.com/v1.0/users/m@x/messages/m1/attachments''
            [(''Authorization'', ''Bearer tok'')],
          Get ''https://graph.microsoft.com/v1.0/users/m@x/messages/m2/attachments''
            [(''Authorization'', ''Bearer tok'')],
          Get ''https://graph.microsoft.com/v1.0/users/m@x/messages/m3/attachments''
            [(''Authorization'', ''Bearer tok'')]],
       stdout =
         [Str ''Received: 2024-01-01 00:00:00'', Str ''Subject: Report 1'',
          Str ''Name: report.xml.gz'', Str ''Content type: application/octet-stream'',
          Str ''Attachment data base64:'', Repr [60, 114, 47, 62],
          Str ''Received: 2024-01-02 00:00:00'', Str ''Subject: Report 2'',
          Str ''Name: empty.gz'', Str ''Content type: application/gzip'',
          Str ''Received: 2024-01-03 00:00:00'', Str ''Subject: Report 3'',
          Str ''Name: report.zip'', Str ''Content type: application/zip'',
          Str ''File name: report.xml'', Str ''Attachment data base64:'',
          Repr [60, 114, 47, 62]],
       clock = 0\<rparr>)"
  by (simp add: run_defs stub_defs)

theorem C9_main_deletes_processed_ids_witness:
  "fst (main (stub_env 200) stub_config stub_state) = Inr ()
   \<and> drop 6 (sent (snd (main (stub_env 200) stub_config stub_state))) =
       [Delete ''https://graph.microsoft.com/v1.0/users/m@x/messages/m1''
          [(''Authorization'', ''Bearer tok'')],
        Delete ''https://graph.microsoft.com/v1.0/users/m@x/messages/m3''
          [(''Authorization'', ''Bearer tok'')]]
   \<and> drop 17 (stdout (snd (main (stub_env 200) stub_config stub_state))) =
       [Str ''ID: m1: Bytes: 4'', Str ''ID: m3: Bytes: 4'',
        Str ''Unable to delete processed item! {id}'']"
proof -
  have s: "stub_state\<lparr>graph := stub_graph\<rparr> = stub_state"
    by (simp add: stub_state_def)
  have n: "str_nat (Suc (Suc (Suc (Suc 0)))) = ''4''"
    by (simp add: str_nat.simps [of "Suc (Suc (Suc (Suc 0)))"])
  have f: "failed_deletions (stub_env 200) h
             [Delete ''https://graph.microsoft.com/v1.0/users/m@x/messages/m1'' a,
              Delete ''https://graph.microsoft.com/v1.0/users/m@x/messages/m3'' b] = 1"
    for h a b
    by (simp add: failed_deletions_def stub_env_def stub_http_def)
  from C9_main_deletes_processed_ids
         [where config = stub_config and e = "stub_env 200" and ?s0.0 = stub_state,
          OF Graph_init_stub(1) Graph_init_stub(2), unfolded s, OF stub_run]
  show ?thesis
    by (simp add: delete_request_def GRAPH_URL_def fmt_def stub_graph_def n f)
qed

lemma process_attachment_empty:
  assumes "fst (get_dmarc_xml e attachment s0) = Inr (Some [])"
  shows "fst (process_attachment e k attachment acc s) = Inr acc"
proof (cases attachment)
  case (FileAttachment n ct cb)
  let ?s2 = "print (Str (''Content type: '' @ ct)) (print (Str (''Name: '' @ fmt n)) s)"
  have "fst (get_dmarc_xml e attachment ?s2) = Inr (Some [])"
    using assms fst_get_dmarc_xml [of e attachment ?s2 s0] by simp
  then obtain s3 where "get_dmarc_xml e attachment ?s2 = (Inr (Some []), s3)"
    by (cases "get_dmarc_xml e attachment ?s2") simp
  with FileAttachment show ?thesis
    by (simp add: process_attachment_def Let_def)
next
  case (MailFolder d i)
  with assms show ?thesis by (simp add: get_dmarc_xml_def)
next
  case (MailMessage i r sub)
  with assms show ?thesis by (simp add: get_dmarc_xml_def)
qed

text \<open>
  Claim C10. A message whose first attachment decodes without error to the empty byte
  sequence leaves the mapping as it was, and no run of the orchestrator returns a
  mapping that holds an empty byte sequence: a message is included only when the decoded
  bytes are true in Python's sense.
\<close>

theorem C10_empty_payload_is_excluded:
  assumes "truthy (token (graph s))"
    and "strptime e received = Some d"
    and "http e (sent s)
           (Get (GRAPH_URL (''/v1.0/users/'' @ mailbox (graph s) @ ''/messages/'' @ item_id
                            @ ''/attachments''))
                [(''Authorization'', ''Bearer '' @ fmt (token (graph s)))])
         = \<lparr>status_code = 200, text_of = ValueJson (attachment # rest)\<rparr>"
    and "fst (get_dmarc_xml e attachment s) = Inr (Some [])"
  shows "fst (process_item e (MailMessage item_id received subject) processed_items s)
           = Inr processed_items
         \<and> (\<forall>s0 processed s'. process_dmarc_mail_items e s0 = (Inr processed, s')
                \<longrightarrow> [] \<notin> snd ` set processed)"
proof -
  let ?s2 = "print (Str (''Subject: '' @ subject)) (print (Str (''Received: '' @ d)) s)"
  have "\<exists>s3. api_get_request e
          (GRAPH_URL (''/v1.0/users/'' @ mailbox (graph ?s2) @ ''/messages/'' @ item_id
                      @ ''/attachments'')) ?s2 = (Inr (Some (attachment # rest)), s3)"
    using assms(1,3) by (simp add: api_get_request_def send_def print_def Let_def)
  then have "fst (process_item e (MailMessage item_id received subject) processed_items s)
           = Inr processed_items"
    using assms(2) process_attachment_empty [OF assms(4)]
    by (auto simp add: process_item_MailMessage Let_def)
  moreover have "[] \<notin> snd ` set processed"
    if "process_dmarc_mail_items e s0 = (Inr processed, s')" for s0 processed s'
    using process_dmarc_mail_items_result [OF that] by simp
  ultimately show ?thesis by blast
qed


theorem C10_empty_payload_is_excluded_witness:
  "fst (process_item (stub_env 200) (MailMessage ''m2'' ''2024-01-02T00:00:00Z'' ''Report 2'')
          [(''m1'', [60, 114, 47, 62])]
          (stub_state\<lparr>graph := stub_graph\<lparr>token := Some ''tok''\<rparr>\<rparr>))
     = Inr [(''m1'', [60, 114, 47, 62])]
   \<and> fst (process_dmarc_mail_items (stub_env 200) stub_state)
     = Inr [(''m1'', [60, 114, 47, 62]), (''m3'', [60, 114, 47, 62])]
   \<and> [] \<notin> snd ` set [(''m1'', [60, 114, 47, 62 :: 8 word]), (''m3'', [60, 114, 47, 62])]"
proof -
  let ?s = "stub_state\<lparr>graph := stub_graph\<lparr>token := Some ''tok''\<rparr>\<rparr>"
  let ?a = "FileAttachment (Some ''empty.gz'') ''application/gzip'' ''BAUG''"
  have a: "truthy (token (graph ?s))"
    by (simp add: truthy_def)
  have b: "strptime (stub_env 200) ''2024-01-02T00:00:00Z'' = Some ''2024-01-02 00:00:00''"
    by (simp add: stub_env_def)
  have c: "http (stub_env 200) (sent ?s)
           (Get (GRAPH_URL (''/v1.0/users/'' @ mailbox (graph ?s) @ ''/messages/'' @ ''m2''
                            @ ''/attachments''))
                [(''Authorization'', ''Bearer '' @ fmt (token (graph ?s)))])
         = \<lparr>status_code = 200, text_of = ValueJson (?a # [])\<rparr>"
    by (simp add: stub_defs GRAPH_URL_def fmt_def)
  have d: "fst (get_dmarc_xml (stub_env 200) ?a ?s) = Inr (Some [])"
    by (simp add: get_dmarc_xml_FileAttachment gzip_signal_def stub_env_def)
  from C10_empty_payload_is_excluded [OF a b c d, of "''Report 2''" "[(''m1'', [60, 114, 47, 62])]"]
  have first: "fst (process_item (stub_env 200)
          (MailMessage ''m2'' ''2024-01-02T00:00:00Z'' ''Report 2'')
          [(''m1'', [60, 114, 47, 62])] ?s) = Inr [(''m1'', [60, 114, 47, 62])]"
    and run: "\<forall>s0 processed s'.
        process_dmarc_mail_items (stub_env 200) s0 = (Inr processed, s') \<longrightarrow>
        [] \<notin> snd ` set processed"
    by blast+
  from run stub_run
  have "[] \<notin> snd ` set [(''m1'', [60, 114, 47, 62 :: 8 word]), (''m3'', [60, 114, 47, 62])]"
    by blast
  with first stub_run show ?thesis by simp
qed

end
